theory Spec2Isabelle
  imports Complex_Main
begin

section \<open>JavaScript strings\<close>

text \<open>
  A JavaScript string is modelled as the list of its code units, restricted to the code
  units below 256, so that it is a \<^typ>\<open>string\<close>.  \<open>isWhiteSpace\<close> is the class
  \<^verbatim>\<open>\s\<close> of a regular expression on that range, which is also the set of characters
  that \<^verbatim>\<open>String.prototype.trim\<close> removes.
\<close>

definition isWhiteSpace :: "char \<Rightarrow> bool" where
  "isWhiteSpace c =
     (c \<in> set [CHR 0x09, CHR 0x0A, CHR 0x0B, CHR 0x0C, CHR 0x0D, CHR 0x20, CHR 0xA0])"

text \<open>The character class \<^verbatim>\<open>[.?!]\<close> of the sentence splitter.\<close>

definition isTerminator :: "char \<Rightarrow> bool" where
  "isTerminator c = (c \<in> set [CHR ''.'', CHR ''?'', CHR ''!''])"

text \<open>\<^verbatim>\<open>s.trim()\<close>.\<close>

definition trim :: "string \<Rightarrow> string" where
  "trim s = rev (dropWhile isWhiteSpace (rev (dropWhile isWhiteSpace s)))"

text \<open>
  \<^verbatim>\<open>s.slice(b, e)\<close>: a negative index counts from the end, both indices are clamped
  to the string, and an empty range gives the empty string.
\<close>

definition slice :: "'a list \<Rightarrow> int \<Rightarrow> int \<Rightarrow> 'a list" where
  "slice s b e =
     (let len = int (length s);
          from = (if b < 0 then max (len + b) 0 else min b len);
          to = (if e < 0 then max (len + e) 0 else min e len)
      in take (nat (to - from)) (drop (nat from) s))"

text \<open>\<^verbatim>\<open>s.slice(b)\<close>: the end defaults to the length.\<close>

definition slice_from :: "'a list \<Rightarrow> int \<Rightarrow> 'a list" where
  "slice_from s b = slice s b (int (length s))"

text \<open>The exceptions of the language that the modelled functions can throw.\<close>

datatype js_error = RangeError | TypeError | SyntaxError

section \<open>The chunker of createDB.tsx\<close>

text \<open>
  \<^verbatim>\<open>text.split(/(?<=[.?!])\s+/g)\<close>.  The scan keeps the code unit before the current
  position (\<open>prev\<close>, for the lookbehind) and the piece read since the last separator
  (\<open>cur\<close>).  A separator is a maximal run of white space whose predecessor is a
  terminator; the scan resumes after the run.
\<close>

function split_scan :: "char option \<Rightarrow> string \<Rightarrow> string \<Rightarrow> string list" where
  "split_scan prev cur [] = [cur]"
| "split_scan prev cur (c # cs) =
     (if isWhiteSpace c \<and> (case prev of None \<Rightarrow> False | Some p \<Rightarrow> isTerminator p)
      then cur # split_scan (Some (last (c # takeWhile isWhiteSpace cs))) []
                   (dropWhile isWhiteSpace cs)
      else split_scan (Some c) (cur @ [c]) cs)"
  by pat_completeness auto
termination
  by (relation "measure (\<lambda>(prev, cur, cs). length cs)")
     (auto simp: length_dropWhile_le less_Suc_eq_le)

definition split_sentences :: "string \<Rightarrow> string list" where
  "split_sentences text = split_scan None [] text"

text \<open>
  The hard-split loop
  \<^verbatim>\<open>for (let i = 0; i < s.length; i += chunkSize - overlap) chunks.push(s.slice(i, i + chunkSize))\<close>.
  An array holds at most \<open>limit\<close> elements (\<open>2\<^sup>3\<^sup>2 - 1\<close> in the language), and
  \<^verbatim>\<open>push\<close> on a full array throws \<^verbatim>\<open>RangeError: Invalid array length\<close>.
  \<open>hardSplit_limited\<close> is the loop as it is written, on an array with that limit.
\<close>

function hardSplit_limited ::
  "nat \<Rightarrow> string \<Rightarrow> int \<Rightarrow> int \<Rightarrow> int \<Rightarrow> string list \<Rightarrow> js_error + string list" where
  "hardSplit_limited limit s chunkSize overlap i chunks =
     (if i < int (length s)
      then if limit \<le> length chunks then Inl RangeError
           else hardSplit_limited limit s chunkSize overlap (i + (chunkSize - overlap))
                  (chunks @ [slice s i (i + chunkSize)])
      else Inr chunks)"
  by pat_completeness auto
termination
  by (relation "measure (\<lambda>(limit, s, chunkSize, overlap, i, chunks). limit - length chunks)")
     auto

declare hardSplit_limited.simps [simp del]

text \<open>
  The chunker is modelled on arrays without a limit, so that a loop which ends by its
  condition returns all its chunks.  With a step that is not positive the condition of the
  hard-split loop stays true once it is true, every iteration pushes a chunk, and the loop
  ends when \<^verbatim>\<open>push\<close> throws at the limit, whatever the limit is: that is the outcome
  \<open>Inl RangeError\<close> of \<open>hardSplit\<close>.  The lemmas \<open>hardSplit_limited_nonpositive_step\<close>
  and \<open>hardSplit_limited_positive_step\<close> relate \<open>hardSplit\<close> to the loop with a limit.
\<close>

function hardSplit ::
  "string \<Rightarrow> int \<Rightarrow> int \<Rightarrow> int \<Rightarrow> string list \<Rightarrow> js_error + string list" where
  "hardSplit s chunkSize overlap i chunks =
     (if i < int (length s)
      then if chunkSize - overlap \<le> 0 then Inl RangeError
           else hardSplit s chunkSize overlap (i + (chunkSize - overlap))
                  (chunks @ [slice s i (i + chunkSize)])
      else Inr chunks)"
  by pat_completeness auto
termination
  by (relation "measure (\<lambda>(s, chunkSize, overlap, i, chunks). nat (int (length s) - i))")
     auto

declare hardSplit.simps [simp del]

text \<open>
  The body of \<^verbatim>\<open>for (const s of sentences)\<close> on the state \<open>(chunks, current)\<close>.  An
  exception of the hard-split loop ends the call.
\<close>

definition chunk_step ::
  "int \<Rightarrow> int \<Rightarrow> string list \<times> string \<Rightarrow> string \<Rightarrow> js_error + string list \<times> string" where
  "chunk_step chunkSize overlap st s =
     (let chunks = fst st; current = snd st in
      if int (length (trim (current @ '' '' @ s))) \<le> chunkSize
      then Inr (chunks, trim (current @ '' '' @ s))
      else
        let startOverlap = max 0 (int (length current) - overlap);
            st1 = (if length current > 0
                   then (chunks @ [current], trim (slice_from current startOverlap))
                   else (chunks, current))
        in if int (length s) > chunkSize
           then (case hardSplit s chunkSize overlap 0 (fst st1) of
                   Inl e \<Rightarrow> Inl e
                 | Inr chunks' \<Rightarrow> Inr (chunks', []))
           else Inr (fst st1, trim s))"

fun chunk_loop ::
  "int \<Rightarrow> int \<Rightarrow> string list \<times> string \<Rightarrow> string list \<Rightarrow> js_error + string list \<times> string" where
  "chunk_loop chunkSize overlap st [] = Inr st"
| "chunk_loop chunkSize overlap st (s # ss) =
     (case chunk_step chunkSize overlap st s of
        Inl e \<Rightarrow> Inl e
      | Inr st' \<Rightarrow> chunk_loop chunkSize overlap st' ss)"

text \<open>
  \<^verbatim>\<open>splitIntoChunks(text, chunkSize, overlap)\<close>: the chunks that the call returns, or
  the exception that it throws.
\<close>

definition splitIntoChunks :: "string \<Rightarrow> int \<Rightarrow> int \<Rightarrow> js_error + string list" where
  "splitIntoChunks text chunkSize overlap =
     (case chunk_loop chunkSize overlap ([], []) (split_sentences text) of
        Inl e \<Rightarrow> Inl e
      | Inr (chunks, current) \<Rightarrow>
          Inr (if length current > 0 then chunks @ [current] else chunks))"

text \<open>The defaults \<^verbatim>\<open>chunkSize = 900, overlap = 150\<close>.\<close>

definition splitIntoChunks_default :: "string \<Rightarrow> js_error + string list" where
  "splitIntoChunks_default text = splitIntoChunks text 900 150"

text \<open>
  The invariant of the loop that bounds the chunks: every chunk pushed so far and the
  running buffer have at most \<open>chunkSize\<close> characters.
\<close>

definition chunks_bounded :: "int \<Rightarrow> string list \<times> string \<Rightarrow> bool" where
  "chunks_bounded chunkSize st =
     ((\<forall>c\<in>set (fst st). int (length c) \<le> chunkSize) \<and> int (length (snd st)) \<le> chunkSize)"

section \<open>Reading a chunk back at retrieval (retrieve.tsx)\<close>

text \<open>
  \<^verbatim>\<open>readChunkContent(fileName, chunkNum, chunkSize = 800)\<close>.  Reading the file and
  normalising its white space are input and output: \<open>doc\<close> is the normalised text they
  produce, \<open>None\<close> when they throw, which the \<^verbatim>\<open>catch\<close> turns into the empty string.
\<close>

definition readChunkContent :: "string option \<Rightarrow> int \<Rightarrow> int \<Rightarrow> string" where
  "readChunkContent doc chunkNum chunkSize =
     (case doc of
        None \<Rightarrow> []
      | Some d \<Rightarrow> (let start = chunkNum * chunkSize in slice d start (start + chunkSize)))"

definition readChunkContent_default :: "string option \<Rightarrow> int \<Rightarrow> string" where
  "readChunkContent_default doc chunkNum = readChunkContent doc chunkNum 800"

section \<open>The dimension projector (retrieve.tsx and createDB.tsx)\<close>

text \<open>
  The two files hold the same function \<^verbatim>\<open>projectToDim\<close>, statement for statement; one
  model serves both.

  A JavaScript number is an IEEE double: a finite double, which is a rational, one of
  the two infinities, or \<^verbatim>\<open>NaN\<close>.  An arithmetic operation on finite doubles returns
  the exact result rounded to the nearest double, ties to the even significand.
  \<open>double_round\<close> is that rounding: the significand has 53 bits, the exponent of a
  normal double is at least \<open>-1022\<close>, below it the doubles are the multiples of
  \<open>2\<^sup>-\<^sup>1\<^sup>0\<^sup>7\<^sup>4\<close>, and a result that rounds to \<open>2\<^sup>1\<^sup>0\<^sup>2\<^sup>4\<close> or more is an infinity.
  The two zeros are one value, as they are for \<^verbatim>\<open>===\<close>.
\<close>

definition round_half_even :: "rat \<Rightarrow> int" where
  "round_half_even x =
     (let f = \<lfloor>x\<rfloor>; d = x - of_int f
      in if d < 1 / 2 then f else if 1 / 2 < d then f + 1
         else if even f then f else f + 1)"

text \<open>The number of binary digits of a positive integer.\<close>

function bit_length :: "int \<Rightarrow> nat" where
  "bit_length n = (if n \<le> 0 then 0 else Suc (bit_length (n div 2)))"
  by pat_completeness auto
termination
  by (relation "measure nat") auto

declare bit_length.simps [simp del]

text \<open>The binary exponent \<open>\<lfloor>log\<^sub>2 x\<rfloor>\<close> of a positive rational, and \<open>2\<^sup>e\<close>.\<close>

definition binary_exponent :: "rat \<Rightarrow> int" where
  "binary_exponent x =
     (if 1 \<le> x then int (bit_length \<lfloor>x\<rfloor>) - 1 else - int (bit_length (\<lceil>1 / x\<rceil> - 1)))"

definition pow2 :: "int \<Rightarrow> rat" where
  "pow2 e = (if 0 \<le> e then 2 ^ nat e else 1 / 2 ^ nat (- e))"

text \<open>
  What an element of a number array can be: a finite number, an infinity, \<^verbatim>\<open>NaN\<close>, or
  \<^verbatim>\<open>undefined\<close> (a hole, or a read outside the array).
\<close>

datatype jsnumber = Num rat | PosInfinity | NegInfinity | NaN | Undefined

definition double_round :: "rat \<Rightarrow> jsnumber" where
  "double_round x =
     (if x = 0 then Num 0
      else let e = max (binary_exponent \<bar>x\<bar>) (- 1022) - 52;
               r = of_int (round_half_even (\<bar>x\<bar> / pow2 e)) * pow2 e
           in if pow2 1024 \<le> r then (if 0 < x then PosInfinity else NegInfinity)
              else Num (sgn x * r))"

text \<open>\<^verbatim>\<open>s + x\<close>, and \<^verbatim>\<open>s / k\<close> for an integer \<open>k \<ge> 1\<close>.\<close>

fun js_add :: "jsnumber \<Rightarrow> jsnumber \<Rightarrow> jsnumber" where
  "js_add (Num a) (Num b) = double_round (a + b)"
| "js_add PosInfinity (Num b) = PosInfinity"
| "js_add (Num a) PosInfinity = PosInfinity"
| "js_add PosInfinity PosInfinity = PosInfinity"
| "js_add NegInfinity (Num b) = NegInfinity"
| "js_add (Num a) NegInfinity = NegInfinity"
| "js_add NegInfinity NegInfinity = NegInfinity"
| "js_add _ _ = NaN"

fun js_div :: "jsnumber \<Rightarrow> int \<Rightarrow> jsnumber" where
  "js_div (Num a) k = double_round (a / of_int k)"
| "js_div PosInfinity k = PosInfinity"
| "js_div NegInfinity k = NegInfinity"
| "js_div _ k = NaN"

text \<open>\<^verbatim>\<open>src[i]\<close>: a read outside the array gives \<^verbatim>\<open>undefined\<close>.\<close>

definition js_index :: "jsnumber list \<Rightarrow> int \<Rightarrow> jsnumber" where
  "js_index src i = (if 0 \<le> i \<and> i < int (length src) then src ! nat i else Undefined)"

text \<open>
  The inner loop \<^verbatim>\<open>for (let i = start; i < end && i < m; i++) s += src[i]\<close>, from the
  index \<open>i\<close> and the sum \<open>s\<close> so far.
\<close>

function block_sum :: "jsnumber list \<Rightarrow> int \<Rightarrow> int \<Rightarrow> jsnumber \<Rightarrow> jsnumber" where
  "block_sum src i end s =
     (if i < end \<and> i < int (length src)
      then block_sum src (i + 1) end (js_add s (js_index src i))
      else s)"
  by pat_completeness auto
termination
  by (relation "measure (\<lambda>(src, i, end, s). nat (int (length src) - i))") auto

declare block_sum.simps [simp del]

text \<open>The body of the downsampling loop: the entry \<^verbatim>\<open>out[j]\<close> for \<open>m > targetDim\<close>.\<close>

definition downsample_entry :: "jsnumber list \<Rightarrow> int \<Rightarrow> int \<Rightarrow> jsnumber" where
  "downsample_entry src targetDim j =
     (let m = int (length src);
          start = (j * m) div targetDim;
          e = ((j + 1) * m) div targetDim;
          end = (if e = 0 then start + 1 else e);
          s = block_sum src start end (Num 0)
      in js_div s (max 1 (end - start)))"

text \<open>The body of the upsampling loop: the entry \<^verbatim>\<open>out[j]\<close> for \<open>m < targetDim\<close>.\<close>

definition upsample_entry :: "jsnumber list \<Rightarrow> int \<Rightarrow> int \<Rightarrow> jsnumber" where
  "upsample_entry src targetDim j =
     (let m = int (length src);
          idx = (j * m) div targetDim
      in js_index src (min (m - 1) idx))"

text \<open>
  Arrays are objects: a program holds references to them and can write into an array
  after it has passed it to a function.  The store is the list of the arrays allocated so
  far, a reference is an index into it, and an allocation appends.
\<close>

type_synonym ref = nat
type_synonym store = "jsnumber list list"

definition alloc :: "store \<Rightarrow> jsnumber list \<Rightarrow> store \<times> ref" where
  "alloc h v = (h @ [v], length h)"

text \<open>
  \<^verbatim>\<open>a[i] = x\<close> on the array at reference \<open>a\<close>: a write past the end extends the array
  with holes.
\<close>

definition array_write :: "store \<Rightarrow> ref \<Rightarrow> nat \<Rightarrow> jsnumber \<Rightarrow> store" where
  "array_write h a i x =
     h[a := (if i < length (h ! a) then (h ! a)[i := x]
             else h ! a @ replicate (i - length (h ! a)) Undefined @ [x])]"

text \<open>
  \<^verbatim>\<open>projectToDim(src, targetDim)\<close> on the store: \<^verbatim>\<open>src.slice()\<close> and
  \<^verbatim>\<open>new Array(targetDim)\<close> allocate, and \<^verbatim>\<open>new Array\<close> throws a RangeError on a
  negative length.  The limit of \<open>2\<^sup>3\<^sup>2 - 1\<close> elements of an array is not modelled.
\<close>

definition projectToDim :: "store \<Rightarrow> ref \<Rightarrow> int \<Rightarrow> js_error + store \<times> ref" where
  "projectToDim h src targetDim =
     (let m = int (length (h ! src)) in
      if m = targetDim then Inr (alloc h (h ! src))
      else if targetDim < 0 then Inl RangeError
      else if m > targetDim
        then Inr (alloc h (map (\<lambda>j. downsample_entry (h ! src) targetDim (int j))
                              [0..<nat targetDim]))
        else Inr (alloc h (map (\<lambda>j. upsample_entry (h ! src) targetDim (int j))
                              [0..<nat targetDim])))"

text \<open>The array that a call returns, read from the store that the call returns.\<close>

definition returned_array :: "js_error + store \<times> ref \<Rightarrow> js_error + jsnumber list" where
  "returned_array r = (case r of Inl e \<Rightarrow> Inl e | Inr (h, a) \<Rightarrow> Inr (h ! a))"

section \<open>Traces and spans (observability.ts)\<close>

subsection \<open>JavaScript values and JSON\<close>

text \<open>
  The values that the loosely typed fields of a span hold.  The properties of an object
  are listed in the order in which JavaScript enumerates them, with distinct keys.  An
  array has its elements and, as every object, can have properties that are not elements.
\<close>

datatype jsval =
    JUndefined
  | JNull
  | JBool bool
  | JNumber rat
  | JString string
  | JArray "jsval list" "(string \<times> jsval) list"
  | JObject "(string \<times> jsval) list"

text \<open>\<^verbatim>\<open>typeof v === 'object'\<close>.\<close>

fun typeof_object :: "jsval \<Rightarrow> bool" where
  "typeof_object JNull = True"
| "typeof_object (JArray xs ps) = True"
| "typeof_object (JObject kvs) = True"
| "typeof_object _ = False"

text \<open>The truth value of a value in a condition.\<close>

fun truthy :: "jsval \<Rightarrow> bool" where
  "truthy JUndefined = False"
| "truthy JNull = False"
| "truthy (JBool b) = b"
| "truthy (JNumber x) = (x \<noteq> 0)"
| "truthy (JString s) = (s \<noteq> [])"
| "truthy _ = True"

text \<open>
  \<^verbatim>\<open>o.k\<close> on an object or an array, for a key that is not an array index:
  \<^verbatim>\<open>undefined\<close> when the property is absent.
\<close>

fun get_property :: "jsval \<Rightarrow> string \<Rightarrow> jsval" where
  "get_property (JObject kvs) k = (case map_of kvs k of None \<Rightarrow> JUndefined | Some v \<Rightarrow> v)"
| "get_property (JArray xs ps) k = (case map_of ps k of None \<Rightarrow> JUndefined | Some v \<Rightarrow> v)"
| "get_property _ k = JUndefined"

text \<open>
  \<^verbatim>\<open>o.k = v\<close> on the properties of an object, for a key that is not an array index: an
  existing property keeps its place, a new one goes to the end.
\<close>

fun set_property :: "(string \<times> jsval) list \<Rightarrow> string \<Rightarrow> jsval \<Rightarrow> (string \<times> jsval) list" where
  "set_property [] k v = [(k, v)]"
| "set_property (p # ps) k v = (if fst p = k then (k, v) # ps else p # set_property ps k v)"

text \<open>
  \<^verbatim>\<open>JSON.stringify\<close>.  A string is quoted with the escapes of JSON; \<^verbatim>\<open>undefined\<close> has no
  JSON text at the top, is \<^verbatim>\<open>null\<close> in an array and is left out of an object.  Of
  an array only the elements are printed.  The text of a number is the parameter
  \<open>fmt\<close>.
\<close>

definition hex_digit :: "nat \<Rightarrow> char" where
  "hex_digit n = (''0123456789abcdef'') ! (n mod 16)"

definition escape_char :: "char \<Rightarrow> string" where
  "escape_char c =
     (if c = CHR 0x22 then [CHR 0x5C, CHR 0x22]
      else if c = CHR 0x5C then [CHR 0x5C, CHR 0x5C]
      else if c = CHR 0x08 then [CHR 0x5C, CHR ''b'']
      else if c = CHR 0x0C then [CHR 0x5C, CHR ''f'']
      else if c = CHR 0x0A then [CHR 0x5C, CHR ''n'']
      else if c = CHR 0x0D then [CHR 0x5C, CHR ''r'']
      else if c = CHR 0x09 then [CHR 0x5C, CHR ''t'']
      else if (of_char c :: nat) < 32
        then [CHR 0x5C] @ ''u00'' @ [hex_digit (of_char c div 16), hex_digit (of_char c)]
      else [c])"

definition json_quote :: "string \<Rightarrow> string" where
  "json_quote s = [CHR 0x22] @ concat (map escape_char s) @ [CHR 0x22]"

fun join :: "string \<Rightarrow> string list \<Rightarrow> string" where
  "join sep [] = []"
| "join sep [x] = x"
| "join sep (x # y # ys) = x @ sep @ join sep (y # ys)"

fun JSON_stringify :: "(rat \<Rightarrow> string) \<Rightarrow> jsval \<Rightarrow> string option" where
  "JSON_stringify fmt JUndefined = None"
| "JSON_stringify fmt JNull = Some ''null''"
| "JSON_stringify fmt (JBool b) = Some (if b then ''true'' else ''false'')"
| "JSON_stringify fmt (JNumber x) = Some (fmt x)"
| "JSON_stringify fmt (JString s) = Some (json_quote s)"
| "JSON_stringify fmt (JArray xs ps) =
     Some (''['' @ join '','' (map (\<lambda>x. case JSON_stringify fmt x of
                                          None \<Rightarrow> ''null'' | Some t \<Rightarrow> t) xs) @ '']'')"
| "JSON_stringify fmt (JObject kvs) =
     Some (''{'' @ join '','' (concat (map (\<lambda>p. case JSON_stringify fmt (snd p) of
                                                  None \<Rightarrow> []
                                                | Some t \<Rightarrow> [json_quote (fst p) @ '':'' @ t]) kvs))
           @ ''}'')"

text \<open>
  The two functions of the language that the module calls and that are not modelled here
  are parameters: the text of a number, and \<^verbatim>\<open>JSON.parse\<close>, which throws a SyntaxError
  on a text that is not JSON.
\<close>

record builtins =
  number_text :: "rat \<Rightarrow> string"
  JSON_parse :: "string \<Rightarrow> js_error + jsval"

subsection \<open>The data model\<close>

datatype status = success | error

datatype wire_status = wire_success | wire_failure | wire_unknown

text \<open>\<^verbatim>\<open>tokens?: { input?: number; output?: number; total?: number }\<close>.\<close>

record token_counts =
  tokens_input :: "rat option"
  tokens_output :: "rat option"
  tokens_total :: "rat option"

text \<open>
  The field \<^verbatim>\<open>content: any\<close> of a span, with the properties that the module reads:
  those of the four content interfaces and \<^verbatim>\<open>variables\<close>.  \<open>None\<close> is an absent
  property.
\<close>

record span_content =
  content_type :: "string option"
  content_provider :: "string option"
  content_model :: "string option"
  content_input :: "jsval option"
  content_output :: "jsval option"
  content_variables :: "jsval option"

record Span =
  span_name :: string
  span_status :: status
  span_startedAt :: int
  span_endedAt :: int
  span_content :: "span_content option"
  span_traceId :: "string option"
  span_traceReferenceId :: "string option"
  span_referenceId :: "string option"
  span_parentReferenceId :: "string option"
  span_promptId :: "string option"
  span_deploymentId :: "string option"
  span_sessionId :: "string option"
  span_runEvaluation :: "bool option"
  span_attributes :: "(string \<times> jsval) list option"
  span_tags :: "string list option"
  span_cost :: "rat option"
  span_latency :: "rat option"
  span_tokens :: "token_counts option"

record Trace =
  trace_name :: string
  trace_status :: status
  trace_startedAt :: int
  trace_endedAt :: int
  trace_referenceId :: string
  trace_spans :: "Span list"
  trace_projectId :: "string option"
  trace_sessionId :: "string option"
  trace_attributes :: "(string \<times> jsval) list option"
  trace_tags :: "string list option"

subsection \<open>The payload of a submission\<close>

record wire_content =
  wire_type :: "string option"
  wire_input :: "string option"
  wire_output :: "string option"
  wire_provider :: "string option"
  wire_model :: "jsval option"
  wire_variables :: "jsval option"
  wire_cost :: "rat option"

record span_payload =
  sp_startedAt :: int
  sp_endedAt :: int
  sp_name :: string
  sp_status :: wire_status
  sp_content :: wire_content
  sp_referenceId :: "string option"
  sp_parentReferenceId :: "string option"
  sp_promptId :: "string option"
  sp_deploymentId :: "string option"
  sp_sessionId :: "string option"
  sp_attributes :: "(string \<times> jsval) list option"
  sp_tags :: "string list option"
  sp_runEvaluation :: "bool option"

record trace_payload =
  tp_startedAt :: int
  tp_endedAt :: int
  tp_name :: string
  tp_status :: wire_status
  tp_referenceId :: string
  tp_sessionId :: "string option"
  tp_attributes :: "(string \<times> jsval) list option"
  tp_tags :: "string list option"

record request_body =
  body_projectId :: string
  body_trace :: trace_payload
  body_spans :: "span_payload list"

text \<open>
  What \<open>submitTrace\<close> reads from its environment: the API key and the project id of the
  process environment, the project id exported by fetchDeployedPrompt.tsx, and the clock
  \<^verbatim>\<open>Date.now()\<close>.
\<close>

record environment =
  ADALINE_API_KEY :: "string option"
  ADALINE_PROJECT_ID :: "string option"
  FETCHED_PROJECT_ID :: string
  Date_now :: int

subsection \<open>submitTrace\<close>

definition mapStatus :: "status \<Rightarrow> wire_status" where
  "mapStatus s = (if s = success then wire_success else wire_failure)"

text \<open>The object \<^verbatim>\<open>s.tokens\<close> as a value, with the properties that are present.\<close>

definition tokens_value :: "token_counts \<Rightarrow> jsval" where
  "tokens_value t =
     JObject (concat
       [case tokens_input t of None \<Rightarrow> [] | Some x \<Rightarrow> [(''input'', JNumber x)],
        case tokens_output t of None \<Rightarrow> [] | Some x \<Rightarrow> [(''output'', JNumber x)],
        case tokens_total t of None \<Rightarrow> [] | Some x \<Rightarrow> [(''total'', JNumber x)]])"

text \<open>\<^verbatim>\<open>x || 0\<close> on an optional number.\<close>

definition or_zero :: "rat option \<Rightarrow> rat" where
  "or_zero x = (case x of None \<Rightarrow> 0 | Some v \<Rightarrow> if v = 0 then 0 else v)"

text \<open>
  The own enumerable properties that a spread \<^verbatim>\<open>{...v}\<close> copies: those of an object,
  the elements of an array under their indices and then its other properties, nothing
  for the other values.
\<close>

fun decimal :: "nat \<Rightarrow> string" where
  "decimal n = (if n < 10 then [hex_digit n] else decimal (n div 10) @ [hex_digit (n mod 10)])"

declare decimal.simps [simp del]

fun spread :: "jsval \<Rightarrow> (string \<times> jsval) list" where
  "spread (JObject kvs) = kvs"
| "spread (JArray xs ps) =
     filter (\<lambda>p. snd p \<noteq> JUndefined) (zip (map decimal [0..<length xs]) xs) @ ps"
| "spread _ = []"

text \<open>
  The metrics that are folded into the output of a span that is not a Model span:
  \<^verbatim>\<open>...(s.cost !== undefined && { cost: s.cost })\<close>, and so on for latency and tokens.
\<close>

definition add_metrics :: "Span \<Rightarrow> (string \<times> jsval) list \<Rightarrow> (string \<times> jsval) list" where
  "add_metrics s props =
     (let p1 = (case span_cost s of None \<Rightarrow> props
                | Some c \<Rightarrow> set_property props ''cost'' (JNumber c));
          p2 = (case span_latency s of None \<Rightarrow> p1
                | Some l \<Rightarrow> set_property p1 ''latency'' (JNumber l))
      in case span_tokens s of None \<Rightarrow> p2
         | Some t \<Rightarrow> set_property p2 ''tokens'' (tokens_value t))"

text \<open>
  \<^verbatim>\<open>parsed.tokenUsage = {...}\<close>.  The module is compiled in strict mode: the
  assignment throws a TypeError on \<^verbatim>\<open>null\<close> and on a primitive value.  On an array it
  adds a property that is not an element, which \<^verbatim>\<open>JSON.stringify\<close> does not print.
\<close>

definition tokenUsage :: "token_counts \<Rightarrow> jsval" where
  "tokenUsage t =
     JObject [(''promptTokens'', JNumber (or_zero (tokens_input t))),
              (''completionTokens'', JNumber (or_zero (tokens_output t))),
              (''totalTokens'', JNumber (or_zero (tokens_total t)))]"

fun assign_tokenUsage :: "jsval \<Rightarrow> jsval \<Rightarrow> js_error + jsval" where
  "assign_tokenUsage (JObject kvs) v = Inr (JObject (set_property kvs ''tokenUsage'' v))"
| "assign_tokenUsage (JArray xs ps) v = Inr (JArray xs (set_property ps ''tokenUsage'' v))"
| "assign_tokenUsage _ v = Inl TypeError"

text \<open>
  The output of a Model span, lines 178 to 193: \<open>out\<close> is \<^verbatim>\<open>c.output\<close>, which is not
  \<^verbatim>\<open>undefined\<close>.  When \<open>out\<close> is an object or an array, \<^verbatim>\<open>parsed\<close> is that very
  object, and the assignment of \<^verbatim>\<open>tokenUsage\<close> writes into the content of the span: the
  first component of the result is \<^verbatim>\<open>c.output\<close> as the callback leaves it.  Otherwise
  \<^verbatim>\<open>parsed\<close> is a new value that \<^verbatim>\<open>JSON.parse\<close> returns, and \<^verbatim>\<open>c.output\<close> stays as
  it is.
\<close>

definition model_output ::
  "builtins \<Rightarrow> Span \<Rightarrow> jsval \<Rightarrow> jsval \<times> (js_error + string option)" where
  "model_output js s out =
     (if typeof_object out
      then (case span_tokens s of
              None \<Rightarrow> (out, Inr (JSON_stringify (number_text js) out))
            | Some t \<Rightarrow>
                (case assign_tokenUsage out (tokenUsage t) of
                   Inl e \<Rightarrow> (out, Inl e)
                 | Inr out' \<Rightarrow> (out', Inr (JSON_stringify (number_text js) out'))))
      else
        (out,
         case (case JSON_stringify (number_text js) out of
                 None \<Rightarrow> Inl SyntaxError
               | Some t \<Rightarrow> JSON_parse js t) of
           Inl e \<Rightarrow> Inl e
         | Inr outputObj \<Rightarrow>
             (case (case outputObj of
                      JString t \<Rightarrow> JSON_parse js (if t = [] then ''{}'' else t)
                    | _ \<Rightarrow> Inr outputObj) of
                Inl e \<Rightarrow> Inl e
              | Inr parsed \<Rightarrow>
                  (case (case span_tokens s of
                           None \<Rightarrow> Inr parsed
                         | Some t \<Rightarrow> assign_tokenUsage parsed (tokenUsage t)) of
                     Inl e \<Rightarrow> Inl e
                   | Inr parsed' \<Rightarrow> Inr (JSON_stringify (number_text js) parsed')))))"

text \<open>
  The callback of \<^verbatim>\<open>trace.spans.map\<close>: the content of the payload of one span, lines 129
  to 194.  It throws where \<^verbatim>\<open>JSON.parse\<close> or the assignment of \<^verbatim>\<open>tokenUsage\<close> does.
  The first component of the result is the span as the callback leaves it.  Two spans
  are taken not to share an output object.
\<close>

definition empty_content :: span_content where
  "empty_content = \<lparr>content_type = None, content_provider = None, content_model = None,
     content_input = None, content_output = None, content_variables = None\<rparr>"

definition build_content :: "builtins \<Rightarrow> Span \<Rightarrow> Span \<times> (js_error + wire_content)" where
  "build_content js s =
     (let c = (case span_content s of None \<Rightarrow> empty_content | Some c \<Rightarrow> c);
          type = content_type c;
          is_model = (type = Some ''Model'');
          content0 = \<lparr>wire_type = (case type of None \<Rightarrow> None
                                     | Some t \<Rightarrow> if t = [] then None else Some t),
                      wire_input = (case content_input c of
                                      None \<Rightarrow> None
                                    | Some JUndefined \<Rightarrow> None
                                    | Some (JString t) \<Rightarrow> Some t
                                    | Some v \<Rightarrow> JSON_stringify (number_text js) v),
                      wire_output = None, wire_provider = None, wire_model = None,
                      wire_variables = None, wire_cost = None\<rparr>;
          out = (case content_output c of None \<Rightarrow> JUndefined | Some v \<Rightarrow> v);
          content1 =
            (if out \<noteq> JUndefined \<and> \<not> is_model
             then content0\<lparr>wire_output :=
                    JSON_stringify (number_text js)
                      (JObject (add_metrics s
                         (if typeof_object out then spread out else [(''value'', out)])))\<rparr>
             else if out = JUndefined \<and> \<not> is_model
                     \<and> (span_cost s \<noteq> None \<or> span_latency s \<noteq> None \<or> span_tokens s \<noteq> None)
             then content0\<lparr>wire_output :=
                    JSON_stringify (number_text js) (JObject (add_metrics s []))\<rparr>
             else content0)
      in if is_model
         then
           (let modelFromInput =
                  (case content_input c of
                     None \<Rightarrow> JUndefined
                   | Some v \<Rightarrow> if typeof_object v \<and> truthy v
                               then get_property v ''model'' else JUndefined);
                content2 = content1
                  \<lparr>wire_provider := Some (case content_provider c of
                                            None \<Rightarrow> ''openai'' | Some p \<Rightarrow> p),
                   wire_model := Some (case content_model c of
                                         Some m \<Rightarrow> JString m
                                       | None \<Rightarrow>
                                           if modelFromInput = JUndefined \<or> modelFromInput = JNull
                                           then JString [] else modelFromInput),
                   wire_variables := (case content_variables c of
                                        None \<Rightarrow> None
                                      | Some v \<Rightarrow> if truthy v then Some v else None),
                   wire_cost := span_cost s\<rparr>
            in if out \<noteq> JUndefined
               then (case model_output js s out of
                       (out', Inl e) \<Rightarrow>
                         (s\<lparr>span_content := Some (c\<lparr>content_output := Some out'\<rparr>)\<rparr>, Inl e)
                     | (out', Inr t) \<Rightarrow>
                         (s\<lparr>span_content := Some (c\<lparr>content_output := Some out'\<rparr>)\<rparr>,
                          Inr (content2\<lparr>wire_output := t\<rparr>)))
               else (s, Inr content2))
         else (s, Inr content1))"

definition build_span_payload :: "builtins \<Rightarrow> Span \<Rightarrow> Span \<times> (js_error + span_payload)" where
  "build_span_payload js s =
     (case build_content js s of
        (s', Inl e) \<Rightarrow> (s', Inl e)
      | (s', Inr content) \<Rightarrow>
          (s',
           Inr \<lparr>sp_startedAt = span_startedAt s,
                sp_endedAt = (if span_endedAt s \<noteq> 0 \<and> span_endedAt s > span_startedAt s
                              then span_endedAt s else span_startedAt s + 1),
                sp_name = span_name s,
                sp_status = mapStatus (span_status s),
                sp_content = content,
                sp_referenceId = span_referenceId s,
                sp_parentReferenceId = span_parentReferenceId s,
                sp_promptId = span_promptId s,
                sp_deploymentId = span_deploymentId s,
                sp_sessionId = span_sessionId s,
                sp_attributes = span_attributes s,
                sp_tags = span_tags s,
                sp_runEvaluation = span_runEvaluation s\<rparr>))"

text \<open>
  \<^verbatim>\<open>trace.spans.map(...)\<close>: the first span whose callback throws ends the map.  The first
  component of the result is the list of the spans as the map leaves them.
\<close>

fun build_spans :: "builtins \<Rightarrow> Span list \<Rightarrow> Span list \<times> (js_error + span_payload list)" where
  "build_spans js [] = ([], Inr [])"
| "build_spans js (s # ss) =
     (case build_span_payload js s of
        (s', Inl e) \<Rightarrow> (s' # ss, Inl e)
      | (s', Inr p) \<Rightarrow>
          (case build_spans js ss of
             (ss', Inl e) \<Rightarrow> (s' # ss', Inl e)
           | (ss', Inr ps) \<Rightarrow> (s' # ss', Inr (p # ps))))"

text \<open>\<^verbatim>\<open>a || b\<close> on optional strings: the empty string counts as absent.\<close>

definition present :: "string option \<Rightarrow> bool" where
  "present x = (case x of None \<Rightarrow> False | Some t \<Rightarrow> t \<noteq> [])"

text \<open>
  The finalization of a trace, lines 104 to 109: the end time is the clock, and the
  status becomes \<open>error\<close> when a span has the status \<open>error\<close>.
\<close>

definition finalize_trace :: "int \<Rightarrow> Trace \<Rightarrow> Trace" where
  "finalize_trace now trace =
     (let trace1 = trace\<lparr>trace_endedAt := now\<rparr>
      in if \<exists>s\<in>set (trace_spans trace1). span_status s = error
         then trace1\<lparr>trace_status := error\<rparr> else trace1)"

text \<open>
  \<^verbatim>\<open>submitTrace(trace)\<close>.  The result is the trace as the call leaves it, since the call
  writes \<^verbatim>\<open>endedAt\<close> and \<^verbatim>\<open>status\<close> into it and \<^verbatim>\<open>tokenUsage\<close> into the outputs of
  its Model spans, and the outcome: an exception, no request (the API key is not set, and
  the call returns before it finalizes the trace), or the body of the request that is
  posted.  The response to the request is logged and has no other effect.
\<close>

definition submitTrace ::
  "environment \<Rightarrow> builtins \<Rightarrow> Trace \<Rightarrow> Trace \<times> (js_error + request_body option)" where
  "submitTrace env js trace0 =
     (if \<not> present (ADALINE_API_KEY env) then (trace0, Inr None)
      else
        let trace = finalize_trace (Date_now env) trace0;
            projectId = (if present (trace_projectId trace) then the (trace_projectId trace)
                         else if present (ADALINE_PROJECT_ID env) then the (ADALINE_PROJECT_ID env)
                         else FETCHED_PROJECT_ID env);
            traceEnded = (if trace_endedAt trace \<noteq> 0 \<and> trace_endedAt trace > trace_startedAt trace
                          then trace_endedAt trace else trace_startedAt trace + 1);
            tracePayload = \<lparr>tp_startedAt = trace_startedAt trace,
                             tp_endedAt = traceEnded,
                             tp_name = trace_name trace,
                             tp_status = mapStatus (trace_status trace),
                             tp_referenceId = trace_referenceId trace,
                             tp_sessionId = trace_sessionId trace,
                             tp_attributes = trace_attributes trace,
                             tp_tags = trace_tags trace\<rparr>
        in case build_spans js (trace_spans trace) of
             (spans', Inl e) \<Rightarrow> (trace\<lparr>trace_spans := spans'\<rparr>, Inl e)
           | (spans', Inr spansPayload) \<Rightarrow>
               (trace\<lparr>trace_spans := spans'\<rparr>,
                Inr (Some \<lparr>body_projectId = projectId, body_trace = tracePayload,
                           body_spans = spansPayload\<rparr>)))"

subsection \<open>Example data\<close>

text \<open>
  A printer of natural numbers and a parser that reads the empty object only, an
  environment with an API key, and a span with a given status, content, cost and token
  counts: the data of the scenarios of the specification.
\<close>

definition example_builtins :: builtins where
  "example_builtins =
     \<lparr>number_text = (\<lambda>x. decimal (nat \<lfloor>x\<rfloor>)),
      JSON_parse = (\<lambda>t. if t = ''{}'' then Inr (JObject []) else Inl SyntaxError)\<rparr>"

definition example_environment :: environment where
  "example_environment =
     \<lparr>ADALINE_API_KEY = Some ''key'', ADALINE_PROJECT_ID = None,
      FETCHED_PROJECT_ID = ''843c9aa0-f1a9-4c29-b742-b8eaccd7f1a1'', Date_now = 2000\<rparr>"

definition example_span ::
  "status \<Rightarrow> span_content option \<Rightarrow> rat option \<Rightarrow> token_counts option \<Rightarrow> Span" where
  "example_span st c cost toks =
     \<lparr>span_name = ''step'', span_status = st, span_startedAt = 1000, span_endedAt = 1500,
      span_content = c, span_traceId = None, span_traceReferenceId = None,
      span_referenceId = None, span_parentReferenceId = None, span_promptId = None,
      span_deploymentId = None, span_sessionId = None, span_runEvaluation = None,
      span_attributes = None, span_tags = None, span_cost = cost, span_latency = None,
      span_tokens = toks\<rparr>"

definition example_trace :: "Span list \<Rightarrow> Trace" where
  "example_trace ss =
     \<lparr>trace_name = ''run'', trace_status = success, trace_startedAt = 1000,
      trace_endedAt = 0, trace_referenceId = ''ref'', trace_spans = ss,
      trace_projectId = None, trace_sessionId = None, trace_attributes = None,
      trace_tags = None\<rparr>"

definition example_model_content :: span_content where
  "example_model_content =
     \<lparr>content_type = Some ''Model'', content_provider = Some ''openai'',
      content_model = Some ''gpt-4.1-mini'',
      content_input = Some (JObject [(''model'', JString ''gpt-4.1-mini'')]),
      content_output = Some (JObject [(''messages'', JArray [] [])]),
      content_variables = None\<rparr>"

definition tokens_10_20_30 :: token_counts where
  "tokens_10_20_30 = \<lparr>tokens_input = Some 10, tokens_output = Some 20, tokens_total = Some 30\<rparr>"

section \<open>Placeholder injection (fetchDeployedPrompt.tsx)\<close>

text \<open>
  An object that is used as a dictionary: its own properties, and the properties that it
  inherits along its prototype chain.  \<^verbatim>\<open>k in o\<close> holds for both kinds, and \<^verbatim>\<open>o[k]\<close>
  reads an own property before an inherited one.
\<close>

record 'v js_object =
  own :: "string \<rightharpoonup> 'v"
  inherited :: "string \<rightharpoonup> 'v"

definition has_property :: "string \<Rightarrow> 'v js_object \<Rightarrow> bool" where
  "has_property k obj =
     (case own obj k of
        Some v \<Rightarrow> True
      | None \<Rightarrow> (case inherited obj k of Some v \<Rightarrow> True | None \<Rightarrow> False))"

definition read_property :: "'v js_object \<Rightarrow> string \<Rightarrow> 'v option" where
  "read_property obj k = (case own obj k of Some v \<Rightarrow> Some v | None \<Rightarrow> inherited obj k)"

text \<open>
  A match of \<^verbatim>\<open>/\{\{([^}]+)\}\}/\<close> at the start of a string: two opening braces, the
  longest run of characters other than a closing brace, which is the captured name and
  is not empty, and two closing braces.  The result is the name and the rest of the
  string after the match.  A shorter run for the name is followed by a character that is
  not a closing brace, so backtracking finds no other match.
\<close>

definition match_placeholder :: "string \<Rightarrow> (string \<times> string) option" where
  "match_placeholder s =
     (if take 2 s = ''{{''
      then let name = takeWhile (\<lambda>c. c \<noteq> CHR ''}'') (drop 2 s);
               rest = dropWhile (\<lambda>c. c \<noteq> CHR ''}'') (drop 2 s)
           in if name \<noteq> [] \<and> take 2 rest = ''}}'' then Some (name, drop 2 rest) else None
      else None)"

text \<open>
  The callback of the replacement, for the matched text \<open>match\<close> and the captured name.
  \<open>String\<close> is the conversion \<^verbatim>\<open>String(v)\<close> of the language.
\<close>

definition replacement :: "('v \<Rightarrow> string) \<Rightarrow> 'v js_object \<Rightarrow> string \<Rightarrow> string \<Rightarrow> string" where
  "replacement String variables match variableName =
     (let trimmedName = trim variableName in
      if has_property trimmedName variables
      then (case read_property variables trimmedName of
              Some v \<Rightarrow> String v
            | None \<Rightarrow> ''undefined'')
      else match)"

text \<open>
  \<^verbatim>\<open>template.replace(regex, callback)\<close> with the flag \<^verbatim>\<open>g\<close>: the matches are found from
  left to right, the search resumes after a match, and the text of a replacement is not
  searched again.
\<close>

function replace_placeholders ::
  "('v \<Rightarrow> string) \<Rightarrow> 'v js_object \<Rightarrow> string \<Rightarrow> string" where
  "replace_placeholders String variables [] = []"
| "replace_placeholders String variables (c # cs) =
     (case match_placeholder (c # cs) of
        Some (name, rest) \<Rightarrow>
          replacement String variables (''{{'' @ name @ ''}}'') name
            @ replace_placeholders String variables rest
      | None \<Rightarrow> c # replace_placeholders String variables cs)"
  by pat_completeness auto
termination
proof (relation "measure (\<lambda>(String, variables, s). length s)")
  show "wf (measure (\<lambda>(String, variables, s). length s))" by simp
next
  fix String :: "'v \<Rightarrow> string" and variables :: "'v js_object" and c cs x2 name rest
  assume m: "match_placeholder (c # cs) = Some x2" and x2: "(name, rest) = x2"
  have "length (dropWhile (\<lambda>c. c \<noteq> CHR ''}'') (drop 2 (c # cs))) \<le> length (c # cs)"
    by (rule order_trans[OF length_dropWhile_le]) simp
  then have "length rest < length (c # cs)"
    using m x2 by (auto simp: match_placeholder_def Let_def split: if_splits)
  then show "((String, variables, rest), String, variables, c # cs)
        \<in> measure (\<lambda>(String, variables, s). length s)" by simp
next
  fix String :: "'v \<Rightarrow> string" and variables :: "'v js_object" and c cs
  show "((String, variables, cs), String, variables, c # cs)
        \<in> measure (\<lambda>(String, variables, s). length s)" by simp
qed

definition injectVariables :: "('v \<Rightarrow> string) \<Rightarrow> string \<Rightarrow> 'v js_object \<Rightarrow> string" where
  "injectVariables String template variables = replace_placeholders String variables template"

text \<open>
  An object literal inherits from \<^verbatim>\<open>Object.prototype\<close>.  Its properties are functions;
  the table gives the text that \<^verbatim>\<open>String\<close> returns for each in Node.
\<close>

definition native_function :: "string \<Rightarrow> string" where
  "native_function name = ''function '' @ name @ ''() { [native code] }''"

definition Object_prototype :: "string \<rightharpoonup> string" where
  "Object_prototype =
     map_of
       ([(''constructor'', native_function ''Object'')]
        @ map (\<lambda>name. (name, native_function name))
            [''hasOwnProperty'', ''isPrototypeOf'', ''propertyIsEnumerable'',
             ''toLocaleString'', ''toString'', ''valueOf'', ''__defineGetter__'',
             ''__defineSetter__'', ''__lookupGetter__'', ''__lookupSetter__'']
        @ [(''__proto__'', ''[object Object]'')])"

text \<open>The object literal with the given properties, whose values are strings.\<close>

definition object_literal :: "(string \<times> string) list \<Rightarrow> string js_object" where
  "object_literal props = \<lparr>own = map_of props, inherited = Object_prototype\<rparr>"

section \<open>Properties of the chunker\<close>

lemma length_slice_le:
  "0 \<le> b \<Longrightarrow> 0 \<le> n \<Longrightarrow> int (length (slice s b (b + n))) \<le> n"
  by (auto simp: slice_def Let_def min_def max_def)


lemma hardSplit_bounded:
  assumes "overlap < chunkSize" "0 \<le> chunkSize" "0 \<le> i"
  shows "\<exists>ws. hardSplit s chunkSize overlap i chunks = Inr (chunks @ ws)
           \<and> (\<forall>w\<in>set ws. int (length w) \<le> chunkSize)"
  using assms
proof (induction "nat (int (length s) - i)" arbitrary: i chunks rule: less_induct)
  case less
  show ?case
  proof (cases "i < int (length s)")
    case True
    have m: "nat (int (length s) - (i + (chunkSize - overlap))) < nat (int (length s) - i)"
      using True less.prems by linarith
    have i': "0 \<le> i + (chunkSize - overlap)" using less.prems by linarith
    from less.hyps[OF m less.prems(1,2) i', of "chunks @ [slice s i (i + chunkSize)]"]
    obtain ws where ws: "hardSplit s chunkSize overlap (i + (chunkSize - overlap))
         (chunks @ [slice s i (i + chunkSize)]) = Inr ((chunks @ [slice s i (i + chunkSize)]) @ ws)"
       "\<forall>w\<in>set ws. int (length w) \<le> chunkSize" by blast
    have "hardSplit s chunkSize overlap i chunks = Inr (chunks @ (slice s i (i + chunkSize) # ws))"
      using True ws(1) less.prems(1) by (subst hardSplit.simps) simp
    moreover have "\<forall>w\<in>set (slice s i (i + chunkSize) # ws). int (length w) \<le> chunkSize"
      using ws(2) length_slice_le[OF less.prems(3,2)] by simp
    ultimately show ?thesis by blast
  next
    case False
    then have "hardSplit s chunkSize overlap i chunks = Inr (chunks @ [])"
      by (subst hardSplit.simps) simp
    then show ?thesis by fastforce
  qed
qed



lemma hardSplit_limited_positive_step:
  assumes "overlap < chunkSize"
  shows "length chunks + nat (int (length s) - i) \<le> limit \<Longrightarrow>
     hardSplit_limited limit s chunkSize overlap i chunks = hardSplit s chunkSize overlap i chunks"
proof (induction "nat (int (length s) - i)" arbitrary: i chunks rule: less_induct)
  case less
  show ?case
  proof (cases "i < int (length s)")
    case True
    have m: "nat (int (length s) - (i + (chunkSize - overlap))) < nat (int (length s) - i)"
      using True assms by linarith
    have room: "length (chunks @ [slice s i (i + chunkSize)])
        + nat (int (length s) - (i + (chunkSize - overlap))) \<le> limit"
      using less.prems True assms by simp
    have lim: "\<not> limit \<le> length chunks" using less.prems True by linarith
    have "hardSplit_limited limit s chunkSize overlap (i + (chunkSize - overlap))
            (chunks @ [slice s i (i + chunkSize)])
          = hardSplit s chunkSize overlap (i + (chunkSize - overlap))
            (chunks @ [slice s i (i + chunkSize)])"
      using less.hyps[OF m room] .
    then show ?thesis
      using True lim assms
      by (subst hardSplit_limited.simps, subst hardSplit.simps) simp
  next
    case False
    then show ?thesis by (subst hardSplit_limited.simps, subst hardSplit.simps) simp
  qed
qed

lemma length_trim_le: "length (trim s) \<le> length s"
proof -
  have "length (trim s) \<le> length (dropWhile isWhiteSpace s)"
    unfolding trim_def using length_dropWhile_le[of isWhiteSpace "rev (dropWhile isWhiteSpace s)"] by simp
  also have "\<dots> \<le> length s" by (rule length_dropWhile_le)
  finally show ?thesis .
qed

lemma chunk_step_else:
  assumes "\<not> int (length (trim (snd st @ '' '' @ s))) \<le> chunkSize"
  shows "chunk_step chunkSize overlap st s =
     (if int (length s) > chunkSize
      then (case hardSplit s chunkSize overlap 0
                   (if length (snd st) > 0 then fst st @ [snd st] else fst st) of
              Inl e \<Rightarrow> Inl e
            | Inr chunks' \<Rightarrow> Inr (chunks', []))
      else Inr (if length (snd st) > 0 then fst st @ [snd st] else fst st, trim s))"
  using assms by (simp add: chunk_step_def Let_def)

lemma chunk_step_bounded:
  assumes ov: "overlap < chunkSize" and cs: "0 \<le> chunkSize"
    and inv: "chunks_bounded chunkSize st"
  shows "\<exists>st'. chunk_step chunkSize overlap st s = Inr st' \<and> chunks_bounded chunkSize st'"
proof (cases "int (length (trim (snd st @ '' '' @ s))) \<le> chunkSize")
  case True
  then show ?thesis using inv by (simp add: chunk_step_def chunks_bounded_def)
next
  case False
  define chunks1 where "chunks1 = (if length (snd st) > 0 then fst st @ [snd st] else fst st)"
  have b1: "\<forall>c\<in>set chunks1. int (length c) \<le> chunkSize"
    using inv by (auto simp: chunks1_def chunks_bounded_def)
  show ?thesis
  proof (cases "int (length s) > chunkSize")
    case True
    from hardSplit_bounded[OF ov cs, of 0 s chunks1]
    obtain ws where ws: "hardSplit s chunkSize overlap 0 chunks1 = Inr (chunks1 @ ws)"
      "\<forall>w\<in>set ws. int (length w) \<le> chunkSize" by auto
    have "chunk_step chunkSize overlap st s = Inr (chunks1 @ ws, [])"
      unfolding chunk_step_else[OF False] chunks1_def[symmetric] using True ws(1) by simp
    moreover have "chunks_bounded chunkSize (chunks1 @ ws, [])"
      using b1 ws(2) cs by (auto simp: chunks_bounded_def)
    ultimately show ?thesis by blast
  next
    case le: False
    have "chunk_step chunkSize overlap st s = Inr (chunks1, trim s)"
      unfolding chunk_step_else[OF False] chunks1_def[symmetric] using le by simp
    moreover have "chunks_bounded chunkSize (chunks1, trim s)"
      using b1 le length_trim_le[of s] by (auto simp: chunks_bounded_def)
    ultimately show ?thesis by blast
  qed
qed

lemma chunk_loop_bounded:
  assumes ov: "overlap < chunkSize" and cs: "0 \<le> chunkSize"
  shows "chunks_bounded chunkSize st \<Longrightarrow>
     \<exists>st'. chunk_loop chunkSize overlap st ss = Inr st' \<and> chunks_bounded chunkSize st'"
proof (induction ss arbitrary: st)
  case Nil
  then show ?case by simp
next
  case (Cons s ss)
  from chunk_step_bounded[OF ov cs Cons.prems, of s]
  obtain st1 where st1: "chunk_step chunkSize overlap st s = Inr st1" "chunks_bounded chunkSize st1"
    by blast
  from Cons.IH[OF st1(2)] st1(1) show ?case by simp
qed



lemma split_scan_no_space:
  "\<forall>c\<in>set cs. \<not> isWhiteSpace c \<Longrightarrow> split_scan prev cur cs = [cur @ cs]"
  by (induction cs arbitrary: prev cur) auto

lemma trim_no_space:
  assumes "\<forall>c\<in>set s. \<not> isWhiteSpace c"
  shows "trim ('' '' @ s) = s"
proof -
  have sp: "isWhiteSpace CHR '' ''" by (simp add: isWhiteSpace_def)
  have 1: "dropWhile isWhiteSpace s = s" using assms by (cases s) auto
  have 2: "dropWhile isWhiteSpace (rev s) = rev s" using assms by (cases "rev s") auto
  show ?thesis using sp 1 2 by (simp add: trim_def)
qed


lemma slice_replicate:
  "0 \<le> b \<Longrightarrow> 0 \<le> e \<Longrightarrow>
   slice (replicate n x) b e = replicate (nat (min e (int n) - min b (int n))) x"
  by (auto simp: slice_def Let_def min_def)

lemma hardSplit_replicate_901:
  "hardSplit (replicate 901 CHR ''a'') 900 150 0 [] =
     Inr [replicate 900 CHR ''a'', replicate 151 CHR ''a'']"
  by (simp add: hardSplit.simps [of _ _ _ 0] hardSplit.simps [of _ _ _ 750]
        hardSplit.simps [of _ _ _ 1500] slice_replicate)

text \<open>
  C10. With \<open>0 \<le> overlap < chunkSize\<close> the chunker returns, and every chunk it returns
  has at most \<open>chunkSize\<close> characters: the chunks of the hard-split loop, the buffers
  pushed when a sentence does not fit, and the buffer flushed at the end.
\<close>

theorem splitIntoChunks_chunks_bounded:
  assumes "0 \<le> overlap" and "overlap < chunkSize"
  shows "\<exists>chunks. splitIntoChunks text chunkSize overlap = Inr chunks
           \<and> (\<forall>c\<in>set chunks. int (length c) \<le> chunkSize)"
proof -
  have cs: "0 \<le> chunkSize" using assms by linarith
  have "chunks_bounded chunkSize ([], [])" using cs by (simp add: chunks_bounded_def)
  from chunk_loop_bounded[OF assms(2) cs this, of "split_sentences text"]
  obtain st' where st': "chunk_loop chunkSize overlap ([], []) (split_sentences text) = Inr st'"
    "chunks_bounded chunkSize st'" by blast
  then show ?thesis
    by (cases st') (auto simp: splitIntoChunks_def chunks_bounded_def)
qed

theorem splitIntoChunks_chunks_bounded_witness:
  "(0::int) \<le> 1 \<and> (1::int) < 4 \<and>
   (\<exists>chunks. splitIntoChunks ''abcdefghij. Hi.'' 4 1 = Inr chunks
      \<and> (\<forall>c\<in>set chunks. int (length c) \<le> 4))"
  using splitIntoChunks_chunks_bounded [of 1 4 "''abcdefghij. Hi.''"] by simp




text \<open>
  C1. The claim: when a sentence does not fit, the buffer is pushed and the next buffer
  starts with the last \<open>overlap\<close> characters of the pushed chunk.  On the text
  \<^verbatim>\<open>A. B. C.\<close> with \<open>chunkSize = 4\<close> and \<open>overlap = 1\<close> the code pushes \<^verbatim>\<open>A.\<close>,
  computes the seed \<^verbatim>\<open>.\<close> and then overwrites it with the trimmed sentence: the next
  chunk is \<^verbatim>\<open>B.\<close>, which does not start with the seed.  (The lemma before this one
  says it in general: as long as no sentence is longer than \<open>chunkSize\<close>, the chunks
  do not depend on \<open>overlap\<close> at all.)
\<close>

theorem splitIntoChunks_overlap_seed_overwritten:
  "splitIntoChunks ''A. B. C.'' 4 1 = Inr [''A.'', ''B.'', ''C.'']
   \<and> trim (slice_from ''A.'' (max 0 (int (length ''A.'') - 1))) = ''.''
   \<and> take 1 ''B.'' \<noteq> ''.''"
  by code_simp




text \<open>
  C3. The claim: the slice that retrieval reads back is the chunk stored at ingestion.
  On a document of 901 letters \<^verbatim>\<open>a\<close> ingestion, with its defaults 900 and 150, stores
  the chunks of 900 and 151 letters, and retrieval, with its default 800, reads back 800
  letters for chunk 0.
\<close>

theorem readChunkContent_differs_from_ingested_chunk:
  "splitIntoChunks_default (replicate 901 CHR ''a'')
     = Inr [replicate 900 CHR ''a'', replicate 151 CHR ''a'']
   \<and> readChunkContent_default (Some (replicate 901 CHR ''a'')) 0 = replicate 800 CHR ''a''
   \<and> replicate 800 CHR ''a'' \<noteq> replicate 900 CHR ''a''"
proof (intro conjI)
  have ns: "\<forall>c\<in>set (replicate 901 CHR ''a''). \<not> isWhiteSpace c"
    by (simp add: isWhiteSpace_def)
  have "chunk_step 900 150 ([], []) (replicate 901 CHR ''a'')
          = Inr ([replicate 900 CHR ''a'', replicate 151 CHR ''a''], [])"
    using trim_no_space[OF ns] hardSplit_replicate_901
    by (simp add: chunk_step_def Let_def)
  then show "splitIntoChunks_default (replicate 901 CHR ''a'')
     = Inr [replicate 900 CHR ''a'', replicate 151 CHR ''a'']"
    using split_scan_no_space[OF ns, of None "[]"]
    by (simp add: splitIntoChunks_default_def splitIntoChunks_def split_sentences_def)
  show "readChunkContent_default (Some (replicate 901 CHR ''a'')) 0 = replicate 800 CHR ''a''"
    by (simp add: readChunkContent_default_def readChunkContent_def slice_replicate)
  have "length (replicate 800 CHR ''a'') \<noteq> length (replicate 900 CHR ''a'')" by simp
  then show "replicate 800 CHR ''a'' \<noteq> replicate 900 CHR ''a''" by metis
qed

section \<open>Properties of the dimension projector\<close>

lemma floor_rat_numeral_div:
  "\<lfloor>numeral a / numeral b :: rat\<rfloor> = numeral a div numeral b"
  by (metis floor_divide_of_int_eq of_int_numeral)

lemma ceiling_rat_numeral_div:
  "\<lceil>numeral a / numeral b :: rat\<rceil> = - ((- numeral a) div numeral b)"
  by (metis ceiling_divide_eq_div of_int_numeral)

lemmas double_eval = double_round_def binary_exponent_def bit_length.simps pow2_def
  round_half_even_def Let_def floor_rat_numeral_div ceiling_rat_numeral_div

lemma returned_array_alloc: "returned_array (Inr (alloc h v)) = Inr v"
  by (simp add: returned_array_def alloc_def)

lemma block_bounds:
  fixes j n m :: int
  assumes "0 \<le> j" "j < n" "n < m"
  shows "0 \<le> (j * m) div n" and "(j * m) div n < ((j + 1) * m) div n"
    and "((j + 1) * m) div n \<le> m"
    and "((j + 1) * m) div n - (j * m) div n \<le> (m + n - 1) div n"
proof -
  have n: "0 < n" using assms by linarith
  have m: "0 < m" using assms by linarith
  show "0 \<le> (j * m) div n" using assms n m by (simp add: pos_imp_zdiv_nonneg_iff)
  have "(j * m + n) div n \<le> ((j + 1) * m) div n"
    using assms n by (intro zdiv_mono1) (auto simp: algebra_simps)
  then show "(j * m) div n < ((j + 1) * m) div n" using n by simp
  have "((j + 1) * m) div n \<le> (n * m) div n"
    using assms n m by (intro zdiv_mono1) (auto simp: mult_right_mono)
  then show "((j + 1) * m) div n \<le> m" using n by simp
  show "((j + 1) * m) div n - (j * m) div n \<le> (m + n - 1) div n"
  proof -
    have "j * m mod n < n" using n by simp
    then have "j * m \<le> n * (j * m div n) + (n - 1)"
      using mult_div_mod_eq[of n "j * m"] by linarith
    then have "(j + 1) * m \<le> n * (j * m div n) + (m + n - 1)"
      by (simp add: algebra_simps)
    then have "(j + 1) * m div n \<le> (n * (j * m div n) + (m + n - 1)) div n"
      using n by (intro zdiv_mono1) auto
    also have "\<dots> = j * m div n + (m + n - 1) div n"
      using n by simp
    finally show ?thesis by linarith
  qed
qed

lemma block_sum_replicate:
  assumes exact: "\<And>k. 1 \<le> k \<Longrightarrow> k \<le> K \<Longrightarrow> double_round (of_nat k * c) = Num (of_nat k * c)"
  shows "0 \<le> i \<Longrightarrow> i \<le> e \<Longrightarrow> e \<le> int m \<Longrightarrow> t + nat (e - i) \<le> K \<Longrightarrow>
     block_sum (replicate m (Num c)) i e (Num (of_nat t * c)) = Num (of_nat (t + nat (e - i)) * c)"
proof (induction "nat (e - i)" arbitrary: i t)
  case 0
  then show ?case by (simp add: block_sum.simps)
next
  case (Suc d)
  have lt: "i < e" "i < int m" using Suc by linarith+
  have idx: "js_index (replicate m (Num c)) i = Num c"
    using lt Suc.prems(1) by (simp add: js_index_def)
  have "double_round (of_nat t * c + c) = Num (of_nat (Suc t) * c)"
    using exact[of "Suc t"] Suc.prems(4) Suc.hyps(2) by (simp add: algebra_simps)
  then have step: "js_add (Num (of_nat t * c)) (Num c) = Num (of_nat (Suc t) * c)"
    by simp
  have d: "d = nat (e - (i + 1))" using Suc.hyps(2) by linarith
  have "block_sum (replicate m (Num c)) (i + 1) e (Num (of_nat (Suc t) * c))
          = Num (of_nat (Suc t + nat (e - (i + 1))) * c)"
    using Suc.prems Suc.hyps(2) lt by (intro Suc.hyps(1)[OF d]) linarith+
  moreover have "Suc t + nat (e - (i + 1)) = t + nat (e - i)" using lt by linarith
  ultimately show ?case
    using lt idx step by (subst block_sum.simps) simp
qed

lemma downsample_entry_replicate:
  assumes exact: "\<And>k. 1 \<le> k \<Longrightarrow> k \<le> nat ((int m + n - 1) div n) \<Longrightarrow>
                    double_round (of_nat k * c) = Num (of_nat k * c)"
    and j: "0 \<le> j" "j < n" and nm: "n < int m"
  shows "downsample_entry (replicate m (Num c)) n j = Num c"
proof -
  define s where "s = (j * int m) div n"
  define e where "e = ((j + 1) * int m) div n"
  note bb = block_bounds[OF j nm, folded s_def e_def]
  have e0: "e \<noteq> 0" using bb by linarith
  have k: "1 \<le> nat (e - s)" "nat (e - s) \<le> nat ((int m + n - 1) div n)"
    using bb by linarith+
  have "block_sum (replicate m (Num c)) s e (Num (of_nat 0 * c)) = Num (of_nat (0 + nat (e - s)) * c)"
    using bb k by (intro block_sum_replicate[where K = "nat ((int m + n - 1) div n)"] exact) auto
  then have bs: "block_sum (replicate m (Num c)) s e (Num 0) = Num (of_nat (nat (e - s)) * c)"
    by simp
  have one: "double_round c = Num c" using exact[of 1] k by simp
  have "of_nat (nat (e - s)) * c / of_int (max 1 (e - s)) = c"
    using bb by (simp add: max_def)
  then have "js_div (Num (of_nat (nat (e - s)) * c)) (max 1 (e - s)) = Num c"
    using one by simp
  then show ?thesis
    using bs e0 by (simp add: downsample_entry_def Let_def s_def[symmetric] e_def[symmetric])
qed

lemma map_const_upt: "(\<And>j. j < k \<Longrightarrow> f j = x) \<Longrightarrow> map f [0..<k] = replicate k x"
  by (induction k) (auto simp: replicate_append_same)

text \<open>
  C7. When the array at \<open>src\<close> has \<open>n\<close> elements, \<open>projectToDim\<close> returns a new array
  with the same elements: its reference is not \<open>src\<close>, the arrays that existed keep
  their elements, and a later write into the array at \<open>src\<close> leaves the returned array
  as it is.
\<close>

theorem projectToDim_same_width_is_copy:
  assumes "src < length h" and "int (length (h ! src)) = n"
  shows "\<exists>h' r. projectToDim h src n = Inr (h', r) \<and> h' ! r = h ! src \<and> r \<noteq> src
           \<and> (\<forall>a<length h. h' ! a = h ! a)
           \<and> (\<forall>i x. array_write h' src i x ! r = h ! src)"
  using assms by (simp add: projectToDim_def alloc_def array_write_def nth_append)

theorem projectToDim_same_width_is_copy_witness:
  "\<exists>h' r. projectToDim [[Num 1, Num 2], [Num 7]] 0 2 = Inr (h', r)
           \<and> h' ! r = [Num 1, Num 2] \<and> r \<noteq> 0
           \<and> (\<forall>a<2. h' ! a = [[Num 1, Num 2], [Num 7]] ! a)
           \<and> (\<forall>i x. array_write h' 0 i x ! r = [Num 1, Num 2])"
  using projectToDim_same_width_is_copy [of 0 "[[Num 1, Num 2], [Num 7]]" 2]
  by (simp add: numeral_2_eq_2)

text \<open>
  Overflow: the sum of two copies of \<open>2\<^sup>1\<^sup>0\<^sup>2\<^sup>3\<close> is an infinity, and so is each entry of
  the projection of four copies onto the width 2.
\<close>

lemma double_round_overflow:
  "double_round (2 ^ 1023 + 2 ^ 1023) = PosInfinity" and "double_round (2 ^ 1023) = Num (2 ^ 1023)"
  by (simp_all add: double_eval)

lemma projectToDim_constant_overflow:
  "returned_array (projectToDim [replicate 4 (Num (2 ^ 1023))] 0 2)
     = Inr [PosInfinity, PosInfinity]"
  by (simp add: projectToDim_def alloc_def returned_array_def downsample_entry_def
        block_sum.simps js_index_def double_eval numeral_2_eq_2 nth_Cons')

text \<open>
  C8, as stated, fails on doubles.  The double nearest to 0.1 is
  \<open>3602879701896397 / 2\<^sup>5\<^sup>5\<close>.  On six copies of it and the width 2, each block sums
  three copies: the sum rounds to \<open>5404319552844596 / 2\<^sup>5\<^sup>4\<close> (0.30000000000000004), and
  the quotient by 3 rounds to \<open>7205759403792795 / 2\<^sup>5\<^sup>6\<close> (0.10000000000000002), which is
  not the value that went in.
\<close>

theorem projectToDim_constant_rounding_counterexample:
  "returned_array (projectToDim [replicate 6 (Num (3602879701896397 / 36028797018963968))] 0 2)
     = Inr (replicate 2 (Num (7205759403792795 / 72057594037927936)))
   \<and> double_round (1 / 10) = Num (3602879701896397 / 36028797018963968)
   \<and> (7205759403792795 / 72057594037927936 :: rat) \<noteq> 3602879701896397 / 36028797018963968"
  by (simp add: projectToDim_def alloc_def returned_array_def downsample_entry_def
        block_sum.simps js_index_def double_eval numeral_2_eq_2 nth_Cons')

text \<open>
  C8, amended.  For an array of \<open>m\<close> copies of a finite number \<open>c\<close> and a width \<open>n\<close>
  with \<open>1 \<le> n < m\<close>, every entry of the result is \<open>c\<close> whenever the multiples
  \<open>c, 2c, \<dots>, kc\<close> up to the longest block, \<open>k \<le> \<lceil>m / n\<rceil>\<close>, are finite doubles,
  so that no addition rounds or overflows.
\<close>

theorem projectToDim_constant_exact:
  assumes "1 \<le> n" and "n < int m" and "h ! src = replicate m (Num c)"
    and "\<forall>k. 1 \<le> k \<and> k \<le> nat ((int m + n - 1) div n)
           \<longrightarrow> double_round (of_nat k * c) = Num (of_nat k * c)"
  shows "returned_array (projectToDim h src n) = Inr (replicate (nat n) (Num c))"
proof -
  have "map (\<lambda>j. downsample_entry (replicate m (Num c)) n (int j)) [0..<nat n]
          = replicate (nat n) (Num c)"
    using assms by (intro map_const_upt downsample_entry_replicate) auto
  then show ?thesis
    using assms(1,2,3) by (simp add: projectToDim_def Let_def returned_array_alloc)
qed

theorem projectToDim_constant_exact_witness:
  "returned_array (projectToDim [replicate 6 (Num (3 / 4))] 0 2) = Inr (replicate 2 (Num (3 / 4)))"
proof -
  have "\<forall>k. 1 \<le> k \<and> k \<le> nat ((int 6 + 2 - 1) div 2)
          \<longrightarrow> double_round (of_nat k * (3 / 4)) = Num (of_nat k * (3 / 4))"
  proof (intro allI impI)
    fix k :: nat assume "1 \<le> k \<and> k \<le> nat ((int 6 + 2 - 1) div 2)"
    then have "k = 1 \<or> k = 2 \<or> k = 3" by auto
    moreover have "double_round (3 / 4) = Num (3 / 4)" "double_round (3 / 2) = Num (3 / 2)"
      "double_round (9 / 4) = Num (9 / 4)"
      by (simp_all add: double_eval)
    ultimately show "double_round (of_nat k * (3 / 4)) = Num (of_nat k * (3 / 4))"
      by auto
  qed
  from projectToDim_constant_exact[of 2 6 "[replicate 6 (Num (3 / 4))]" 0 "3 / 4", OF _ _ _ this]
  show ?thesis by simp
qed

text \<open>
  C9. For a width \<open>n \<ge> 1\<close> the call returns an array of exactly \<open>n\<close> elements, also
  when the source array is empty.  The call has no effect but the allocation of that
  array, and the elements depend on nothing but the elements of the source array and
  \<open>n\<close>: a call in another store, on another reference that holds the same elements,
  returns the same elements.
\<close>

theorem projectToDim_deterministic_length:
  assumes "1 \<le> n" and "src < length h"
  shows "\<exists>v. projectToDim h src n = Inr (h @ [v], length h) \<and> length v = nat n
           \<and> (\<forall>h2 src2. src2 < length h2 \<and> h2 ! src2 = h ! src
                 \<longrightarrow> returned_array (projectToDim h2 src2 n) = Inr v)"
  using assms by (auto simp: projectToDim_def Let_def returned_array_def alloc_def)

theorem projectToDim_deterministic_length_witness:
  "\<exists>v. projectToDim [[]] 0 3 = Inr ([[]] @ [v], length [[] :: jsnumber list]) \<and> length v = nat 3
        \<and> returned_array (projectToDim [[Num 5], []] 1 3) = Inr v"
proof -
  obtain v where v: "projectToDim [[]] 0 3 = Inr ([[]] @ [v], length [[] :: jsnumber list])"
    "length v = nat 3"
    "\<forall>h2 src2. src2 < length h2 \<and> h2 ! src2 = [[]] ! 0
        \<longrightarrow> returned_array (projectToDim h2 src2 3) = Inr v"
    using projectToDim_deterministic_length [of 3 0 "[[]]"] by auto
  from v(3) have "returned_array (projectToDim [[Num 5], []] 1 3) = Inr v" by simp
  with v(1,2) show ?thesis by blast
qed

section \<open>Properties of the trace model\<close>

lemma map_of_set_property: "map_of (set_property kvs k v) k = Some v"
  by (induction kvs) auto

lemma join_contains: "e \<in> set es \<Longrightarrow> \<exists>pre post. join sep es = pre @ e @ post"
proof (induction sep es rule: join.induct)
  case (1 sep)
  then show ?case by simp
next
  case (2 sep x)
  then have "join sep [x] = [] @ e @ []" by simp
  then show ?case by blast
next
  case (3 sep x y ys)
  show ?case
  proof (cases "e = x")
    case True
    then have "join sep (x # y # ys) = [] @ e @ (sep @ join sep (y # ys))" by simp
    then show ?thesis by blast
  next
    case False
    with 3 obtain pre post where "join sep (y # ys) = pre @ e @ post" by auto
    then have "join sep (x # y # ys) = (x @ sep @ pre) @ e @ post" by simp
    then show ?thesis by blast
  qed
qed

lemma entry_set_property:
  assumes "JSON_stringify fmt v = Some t"
  shows "json_quote k @ '':'' @ t \<in> set (concat (map (\<lambda>p. case JSON_stringify fmt (snd p) of
                                                  None \<Rightarrow> []
                                                | Some t \<Rightarrow> [json_quote (fst p) @ '':'' @ t])
                                       (set_property kvs k v)))"
  using assms by (induction kvs) auto

lemma stringify_set_property_contains:
  assumes "JSON_stringify fmt v = Some t"
  shows "\<exists>pre post. JSON_stringify fmt (JObject (set_property kvs k v))
           = Some (pre @ json_quote k @ '':'' @ t @ post)"
proof -
  from join_contains[OF entry_set_property[OF assms, of k kvs], of "'',''"]
  obtain pre post where "join '','' (concat (map (\<lambda>p. case JSON_stringify fmt (snd p) of
                                                  None \<Rightarrow> []
                                                | Some t \<Rightarrow> [json_quote (fst p) @ '':'' @ t])
                                       (set_property kvs k v))) = pre @ (json_quote k @ '':'' @ t) @ post"
    by blast
  then have "JSON_stringify fmt (JObject (set_property kvs k v))
           = Some ((''{'' @ pre) @ json_quote k @ '':'' @ t @ (post @ ''}''))" by simp
  then show ?thesis by blast
qed

lemma build_spans_nth:
  "snd (build_spans js ss) = Inr ps \<Longrightarrow>
     length ps = length ss
     \<and> (\<forall>i<length ss. snd (build_span_payload js (ss ! i)) = Inr (ps ! i))"
proof (induction ss arbitrary: ps)
  case Nil
  then show ?case by simp
next
  case (Cons s ss)
  then show ?case
    by (auto split: sum.splits prod.splits simp: nth_Cons')
qed

lemma build_content_model:
  assumes c: "span_content s = Some c" and ty: "content_type c = Some ''Model''"
    and out: "content_output c = Some (JObject props)"
    and tok: "span_tokens s = Some t"
  shows "\<exists>w. snd (build_content js s) = Inr w
           \<and> wire_cost w = span_cost s
           \<and> wire_provider w = Some (case content_provider c of None \<Rightarrow> ''openai'' | Some p \<Rightarrow> p)
           \<and> wire_model w \<noteq> None
           \<and> (\<forall>m. content_model c = Some m \<longrightarrow> wire_model w = Some (JString m))
           \<and> wire_output w = JSON_stringify (number_text js)
                 (JObject (set_property props ''tokenUsage'' (tokenUsage t)))"
  using assms
  by (simp add: build_content_def model_output_def Let_def)

lemma tokenUsage_10_20_30:
  "tokenUsage tokens_10_20_30 =
     JObject [(''promptTokens'', JNumber 10), (''completionTokens'', JNumber 20),
              (''totalTokens'', JNumber 30)]"
  by (simp add: tokenUsage_def tokens_10_20_30_def or_zero_def)

lemma stringify_tokenUsage_10_20_30:
  "JSON_stringify fmt (tokenUsage tokens_10_20_30) =
     Some (''{'' @ json_quote ''promptTokens'' @ '':'' @ fmt 10 @ '',''
           @ json_quote ''completionTokens'' @ '':'' @ fmt 20 @ '',''
           @ json_quote ''totalTokens'' @ '':'' @ fmt 30 @ ''}'')"
  by (simp add: tokenUsage_10_20_30)

lemma finalize_trace_spans: "trace_spans (finalize_trace now t) = trace_spans t"
  by (simp add: finalize_trace_def Let_def)

lemma submitTrace_body_spans:
  assumes "submitTrace env js t = (t', Inr (Some body))"
  shows "snd (build_spans js (trace_spans t)) = Inr (body_spans body)"
  using assms
  by (auto simp: submitTrace_def Let_def finalize_trace_spans
      split: if_splits sum.splits prod.splits)

text \<open>
  C4. The finalization of a trace leaves it with the status \<open>error\<close> exactly when its
  status was \<open>error\<close> before or one of its spans has the status \<open>error\<close>; and whenever
  the API key is set, the trace that \<open>submitTrace\<close> leaves has the status and the end time
  of the finalized trace (without the key the call returns before the finalization).
\<close>

theorem submitTrace_status_error_iff:
  "(trace_status (finalize_trace now t) = error
      \<longleftrightarrow> trace_status t = error \<or> (\<exists>s\<in>set (trace_spans t). span_status s = error))
   \<and> (present (ADALINE_API_KEY env)
        \<longrightarrow> trace_status (fst (submitTrace env js t))
              = trace_status (finalize_trace (Date_now env) t)
            \<and> trace_endedAt (fst (submitTrace env js t)) = Date_now env)"
  by (auto simp: submitTrace_def finalize_trace_def Let_def split: sum.splits prod.splits)

theorem submitTrace_status_error_iff_witness:
  "present (ADALINE_API_KEY example_environment)
   \<and> trace_status (example_trace [example_span success None None None,
          example_span error None None None, example_span success None None None]) = success
   \<and> trace_status (fst (submitTrace example_environment example_builtins
        (example_trace [example_span success None None None,
          example_span error None None None, example_span success None None None]))) = error"
  using submitTrace_status_error_iff [of "Date_now example_environment"
        "example_trace [example_span success None None None,
          example_span error None None None, example_span success None None None]"
        example_environment example_builtins]
  by (simp add: example_environment_def present_def example_trace_def example_span_def)

text \<open>
  C5, as stated, fails: the output of a Model span can be defined and not be an object.
  With the empty array as output, the assignment of \<^verbatim>\<open>tokenUsage\<close> adds a property that
  \<^verbatim>\<open>JSON.stringify\<close> does not print, and the output of the payload is \<^verbatim>\<open>[]\<close>; with
  \<^verbatim>\<open>null\<close> as output the assignment throws a TypeError and there is no payload.
\<close>

theorem submitTrace_model_span_output_not_object_counterexample:
  "map_sum id (wire_output \<circ> sp_content)
     (snd (build_span_payload example_builtins
        (example_span success
           (Some (example_model_content\<lparr>content_output := Some (JArray [] [])\<rparr>))
           (Some (1 / 1000)) (Some tokens_10_20_30))))
     = Inr (Some ''[]'')
   \<and> snd (build_span_payload example_builtins
        (example_span success
           (Some (example_model_content\<lparr>content_output := Some JNull\<rparr>))
           (Some (1 / 1000)) (Some tokens_10_20_30)))
     = Inl TypeError"
  by (simp add: example_builtins_def example_span_def example_model_content_def
       tokens_10_20_30_def build_span_payload_def build_content_def model_output_def
       tokenUsage_def or_zero_def Let_def)

text \<open>
  C5, amended.  Let \<open>s\<close> be a span whose content has the type Model and an object (not
  \<^verbatim>\<open>null\<close>, not an array) as output, with the token counts 10, 20 and 30.  Then the
  callback builds a payload for \<open>s\<close> without an exception.  In the content of the
  payload, \<open>cost\<close> is the cost of the span, \<open>provider\<close> is the provider of the content
  (\<^verbatim>\<open>openai\<close> when it has none) and \<open>model\<close> is the model of the content; \<open>output\<close>
  is the JSON text of an object whose property \<open>tokenUsage\<close> is the object with
  \<open>promptTokens\<close> 10, \<open>completionTokens\<close> 20 and \<open>totalTokens\<close> 30, and that text
  contains the text of this property.  Whenever \<open>submitTrace\<close> posts a request for a
  trace that holds \<open>s\<close> at the index \<open>i\<close>, this payload is the element \<open>i\<close> of the
  spans of the request.
\<close>

theorem submitTrace_model_span_payload:
  assumes "span_content s = Some c" and "content_type c = Some ''Model''"
    and "content_output c = Some (JObject props)"
    and "span_tokens s = Some tokens_10_20_30"
  shows "\<exists>p. snd (build_span_payload js s) = Inr p
      \<and> wire_cost (sp_content p) = span_cost s
      \<and> wire_provider (sp_content p)
           = Some (case content_provider c of None \<Rightarrow> ''openai'' | Some v \<Rightarrow> v)
      \<and> wire_model (sp_content p) \<noteq> None
      \<and> (\<forall>m. content_model c = Some m \<longrightarrow> wire_model (sp_content p) = Some (JString m))
      \<and> (\<exists>props'. wire_output (sp_content p) = JSON_stringify (number_text js) (JObject props')
            \<and> map_of props' ''tokenUsage''
                = Some (JObject [(''promptTokens'', JNumber 10), (''completionTokens'', JNumber 20),
                                 (''totalTokens'', JNumber 30)]))
      \<and> (\<exists>pre post. wire_output (sp_content p)
            = Some (pre @ json_quote ''tokenUsage'' @ '':''
                    @ (''{'' @ json_quote ''promptTokens'' @ '':'' @ number_text js 10 @ '',''
                       @ json_quote ''completionTokens'' @ '':'' @ number_text js 20 @ '',''
                       @ json_quote ''totalTokens'' @ '':'' @ number_text js 30 @ ''}'')
                    @ post))
      \<and> (\<forall>env t t' body i.
            submitTrace env js t = (t', Inr (Some body)) \<and> i < length (trace_spans t)
              \<and> trace_spans t ! i = s
            \<longrightarrow> i < length (body_spans body) \<and> body_spans body ! i = p)"
proof -
  from build_content_model[OF assms, of js]
  obtain w where w: "snd (build_content js s) = Inr w" "wire_cost w = span_cost s"
    "wire_provider w = Some (case content_provider c of None \<Rightarrow> ''openai'' | Some v \<Rightarrow> v)"
    "wire_model w \<noteq> None"
    "\<forall>m. content_model c = Some m \<longrightarrow> wire_model w = Some (JString m)"
    "wire_output w = JSON_stringify (number_text js)
        (JObject (set_property props ''tokenUsage'' (tokenUsage tokens_10_20_30)))"
    by blast
  obtain p where p: "snd (build_span_payload js s) = Inr p" "sp_content p = w"
    using w(1) by (cases "build_content js s") (simp add: build_span_payload_def)
  have tu: "\<exists>props'. wire_output w = JSON_stringify (number_text js) (JObject props')
            \<and> map_of props' ''tokenUsage''
                = Some (JObject [(''promptTokens'', JNumber 10), (''completionTokens'', JNumber 20),
                                 (''totalTokens'', JNumber 30)])"
    using w(6) map_of_set_property[of props "''tokenUsage''" "tokenUsage tokens_10_20_30"]
    unfolding tokenUsage_10_20_30 by blast
  have sub: "\<exists>pre post. wire_output w
            = Some (pre @ json_quote ''tokenUsage'' @ '':''
                    @ (''{'' @ json_quote ''promptTokens'' @ '':'' @ number_text js 10 @ '',''
                       @ json_quote ''completionTokens'' @ '':'' @ number_text js 20 @ '',''
                       @ json_quote ''totalTokens'' @ '':'' @ number_text js 30 @ ''}'')
                    @ post)"
    using stringify_set_property_contains[OF stringify_tokenUsage_10_20_30,
        where kvs = props and k = "''tokenUsage''" and fmt = "number_text js"] w(6)
    by simp
  have req: "\<forall>env t t' body i.
            submitTrace env js t = (t', Inr (Some body)) \<and> i < length (trace_spans t)
              \<and> trace_spans t ! i = s
            \<longrightarrow> i < length (body_spans body) \<and> body_spans body ! i = p"
  proof (intro allI impI)
    fix env t t' body i
    assume a: "submitTrace env js t = (t', Inr (Some body)) \<and> i < length (trace_spans t)
              \<and> trace_spans t ! i = s"
    from build_spans_nth[OF submitTrace_body_spans, of env js t t' body] a p(1)
    show "i < length (body_spans body) \<and> body_spans body ! i = p" by auto
  qed
  from p w(2,3,4,5) tu sub req show ?thesis by blast
qed

theorem submitTrace_model_span_payload_witness:
  \<open>\<exists>t' body.
     submitTrace example_environment example_builtins
       (example_trace [example_span success None None None,
          example_span success (Some example_model_content) (Some (1 / 1000))
            (Some tokens_10_20_30)])
       = (t', Inr (Some body))
     \<and> wire_cost (sp_content (body_spans body ! 1)) = Some (1 / 1000)
     \<and> wire_provider (sp_content (body_spans body ! 1)) = Some ''openai''
     \<and> wire_model (sp_content (body_spans body ! 1)) = Some (JString ''gpt-4.1-mini'')
     \<and> wire_output (sp_content (body_spans body ! 1))
         = Some ''{"messages":[],"tokenUsage":{"promptTokens":10,"completionTokens":20,"totalTokens":30}}''\<close>
proof -
  let ?s = "example_span success (Some example_model_content) (Some (1 / 1000))
              (Some tokens_10_20_30)"
  let ?t = "example_trace [example_span success None None None, ?s]"
  obtain p where p: "snd (build_span_payload example_builtins ?s) = Inr p"
    "wire_cost (sp_content p) = span_cost ?s"
    "\<forall>env t t' body i.
        submitTrace env example_builtins t = (t', Inr (Some body)) \<and> i < length (trace_spans t)
          \<and> trace_spans t ! i = ?s
        \<longrightarrow> i < length (body_spans body) \<and> body_spans body ! i = p"
    using submitTrace_model_span_payload
      [of ?s example_model_content "[(''messages'', JArray [] [])]" example_builtins]
    by (auto simp: example_span_def example_model_content_def)
  have ev: \<open>snd (build_span_payload example_builtins ?s) = Inr p \<longrightarrow>
      wire_provider (sp_content p) = Some ''openai''
      \<and> wire_model (sp_content p) = Some (JString ''gpt-4.1-mini'')
      \<and> wire_output (sp_content p)
         = Some ''{"messages":[],"tokenUsage":{"promptTokens":10,"completionTokens":20,"totalTokens":30}}''\<close>
    by (auto simp: example_builtins_def example_span_def example_model_content_def
       tokens_10_20_30_def build_span_payload_def build_content_def model_output_def
       tokenUsage_def or_zero_def Let_def json_quote_def escape_char_def decimal.simps
       hex_digit_def mapStatus_def)
  obtain t' r where r: "submitTrace example_environment example_builtins ?t = (t', Inr (Some r))"
    by (simp add: submitTrace_def example_environment_def example_builtins_def example_trace_def
       example_span_def example_model_content_def tokens_10_20_30_def present_def
       finalize_trace_def build_span_payload_def build_content_def model_output_def
       empty_content_def tokenUsage_def Let_def)
  have "1 < length (trace_spans ?t) \<and> trace_spans ?t ! 1 = ?s"
    by (simp add: example_trace_def)
  with p(3) r have "body_spans r ! 1 = p"
    by blast
  then show ?thesis
    using r p(1,2) ev by (auto simp: example_span_def)
qed

section \<open>Properties of the placeholder injection\<close>

text \<open>
  C6. The claim: a placeholder whose trimmed name is not a supplied key stays in the
  output as it is.  The callback tests \<^verbatim>\<open>trimmedName in variables\<close>, which also holds for
  the names that the object inherits: with the empty object literal the placeholder
  \<^verbatim>\<open>{{toString}}\<close> is replaced by the text of the inherited function.  The two examples of
  the claim, whose names are not inherited, evaluate as the claim says.
\<close>

theorem injectVariables_replaces_inherited_name:
  "injectVariables id ''{{toString}}'' (object_literal [])
     = ''function toString() { [native code] }''
   \<and> injectVariables id ''Plan: {{X}}.'' (object_literal [(''X'', ''run'')]) = ''Plan: run.''
   \<and> injectVariables id ''Plan: {{X}}.'' (object_literal []) = ''Plan: {{X}}.''"
  by (simp add: injectVariables_def match_placeholder_def replacement_def has_property_def
        read_property_def object_literal_def Object_prototype_def native_function_def
        trim_def isWhiteSpace_def Let_def)

end
